theory Spec2Isabelle
  imports Main
begin

section \<open>Action data model (@onlook/models, as far as the sources use it)\<close>

text \<open>
  \<^verbatim>\<open>StyleChange\<close> is \<^verbatim>\<open>{ value: string, type: StyleChangeType }\<close>. A
  \<^verbatim>\<open>Record<string, StyleChange>\<close> is an association list in insertion order, which is the
  order of \<^verbatim>\<open>Object.keys\<close> and \<^verbatim>\<open>Object.entries\<close>.

  The type parameter \<open>'v\<close> of targets and actions is what a style entry holds: a
  \<open>StyleChange\<close> where an action is looked at as a value, an address into a store of
  \<open>StyleChange\<close> objects where the identity of the objects matters (the dispatcher assigns
  to their fields).
\<close>

datatype StyleChangeType = Value | Custom

record StyleChange =
  sc_value :: string
  sc_type :: StyleChangeType

record 'a Change =
  original :: 'a
  updated :: 'a

record ActionTarget =
  frameId :: string
  domId :: string
  oid :: "string option"

record 'v StyleActionTarget = ActionTarget +
  change :: "(string \<times> 'v) list Change"

record ActionLocation =
  targetDomId :: string
  loc_index :: int

record DomElementStyles =
  defined :: "(string \<times> string) list"
  computed :: "(string \<times> string) list"

record DomElement =
  el_domId :: string
  el_frameId :: string
  el_oid :: "string option"
  el_instanceId :: "string option"
  el_styles :: "DomElementStyles option"

text \<open>
  The payloads that the dispatcher only forwards (element, container, inserted picture,
  code diffs) are strings here. Of every variant the fields are those that the sources read.
\<close>

datatype 'v Action =
    UpdateStyle "'v StyleActionTarget list"
  | InsertElement "ActionTarget list" string ActionLocation
  | RemoveElement "ActionTarget list" ActionLocation
  | MoveElement "ActionTarget list" ActionLocation
  | EditText "ActionTarget list" string
  | GroupElements ActionTarget string "ActionTarget list"
  | UngroupElements ActionTarget string
  | WriteCode string
  | InsertImage "ActionTarget list" string
  | RemoveImage "ActionTarget list"

section \<open>History manager (history/index.ts)\<close>

text \<open>
  The manager is generic in the action type \<open>'a\<close>: it stores, moves and hands out actions,
  and inspects them only through the helpers of \<^verbatim>\<open>./helpers\<close>
  (\<^verbatim>\<open>updateTransactionActions\<close>, \<^verbatim>\<open>undoAction\<close>, \<^verbatim>\<open>transformRedoAction\<close>), which are
  parameters \<open>uta\<close>, \<open>ua\<close>, \<open>tra\<close> of the functions below.

  A JavaScript array used as a stack pushes and pops at its end: the top of a stack is the
  last element of the list.

  The calls to the collaborators \<^verbatim>\<open>editorEngine.code.write\<close> and \<^verbatim>\<open>sendAnalytics\<close> in
  \<^verbatim>\<open>push\<close> and the \<^verbatim>\<open>console.log\<close> lines do not touch the three fields of the manager and
  are left out of the state transformers.
\<close>

datatype 'a TransactionState = IN_TRANSACTION "'a list" | NOT_IN_TRANSACTION

record 'a HistoryManager =
  undoStack :: "'a list"
  redoStack :: "'a list"
  inTransaction :: "'a TransactionState"

definition canUndo :: "'a HistoryManager \<Rightarrow> bool" where
  "canUndo h = (length (undoStack h) > 0)"

definition canRedo :: "'a HistoryManager \<Rightarrow> bool" where
  "canRedo h = (length (redoStack h) > 0)"

definition isInTransaction :: "'a HistoryManager \<Rightarrow> bool" where
  "isInTransaction h = (case inTransaction h of IN_TRANSACTION acts \<Rightarrow> True | NOT_IN_TRANSACTION \<Rightarrow> False)"

definition history_length :: "'a HistoryManager \<Rightarrow> nat" where
  "history_length h = length (undoStack h)"

text \<open>The buffer of the open transaction; empty when no transaction is open.\<close>

definition bufferedActions :: "'a HistoryManager \<Rightarrow> 'a list" where
  "bufferedActions h = (case inTransaction h of IN_TRANSACTION acts \<Rightarrow> acts | NOT_IN_TRANSACTION \<Rightarrow> [])"

definition startTransaction :: "'a HistoryManager \<Rightarrow> 'a HistoryManager" where
  "startTransaction h = h\<lparr>inTransaction := IN_TRANSACTION []\<rparr>"

text \<open>
  \<^verbatim>\<open>push\<close>: inside a transaction the action goes to the buffer through
  \<^verbatim>\<open>updateTransactionActions\<close>; otherwise a non-empty redo stack is emptied and the action is
  pushed onto the undo stack. Both happen before the first \<^verbatim>\<open>await\<close> of the async function,
  that is, synchronously in the call.
\<close>

definition push :: "('a list \<Rightarrow> 'a \<Rightarrow> 'a list) \<Rightarrow> 'a \<Rightarrow> 'a HistoryManager \<Rightarrow> 'a HistoryManager" where
  "push uta action h =
     (case inTransaction h of
        IN_TRANSACTION acts \<Rightarrow> h\<lparr>inTransaction := IN_TRANSACTION (uta acts action)\<rparr>
      | NOT_IN_TRANSACTION \<Rightarrow>
          (let h1 = (if length (redoStack h) > 0 then h\<lparr>redoStack := []\<rparr> else h)
           in h1\<lparr>undoStack := undoStack h1 @ [action]\<rparr>))"

text \<open>
  \<^verbatim>\<open>commitTransaction\<close>, awaited to its end: the state is reset to not-in-transaction and
  every buffered action goes through \<^verbatim>\<open>push\<close>, in buffer order.
\<close>

definition commitTransaction :: "('a list \<Rightarrow> 'a \<Rightarrow> 'a list) \<Rightarrow> 'a HistoryManager \<Rightarrow> 'a HistoryManager" where
  "commitTransaction uta h =
     (case inTransaction h of
        NOT_IN_TRANSACTION \<Rightarrow> h\<lparr>inTransaction := NOT_IN_TRANSACTION\<rparr>
      | IN_TRANSACTION acts \<Rightarrow>
          (if length acts = 0 then h\<lparr>inTransaction := NOT_IN_TRANSACTION\<rparr>
           else fold (push uta) acts (h\<lparr>inTransaction := NOT_IN_TRANSACTION\<rparr>)))"

text \<open>
  \<^verbatim>\<open>undo\<close> and \<^verbatim>\<open>redo\<close> call \<^verbatim>\<open>this.commitTransaction()\<close> without awaiting it. An async
  function runs in the call up to its first suspension: the state is reset, the first
  buffered action is pushed (the stack update of \<^verbatim>\<open>push\<close> precedes its
  \<^verbatim>\<open>await code.write\<close>), and the loop is suspended there. The remaining buffered actions are
  pushed only after the caller has returned; they are the second component of the result.
\<close>

definition commitTransaction_unawaited ::
    "('a list \<Rightarrow> 'a \<Rightarrow> 'a list) \<Rightarrow> 'a HistoryManager \<Rightarrow> 'a HistoryManager \<times> 'a list" where
  "commitTransaction_unawaited uta h =
     (case inTransaction h of
        NOT_IN_TRANSACTION \<Rightarrow> (h\<lparr>inTransaction := NOT_IN_TRANSACTION\<rparr>, [])
      | IN_TRANSACTION acts \<Rightarrow>
          (case acts of
             [] \<Rightarrow> (h\<lparr>inTransaction := NOT_IN_TRANSACTION\<rparr>, [])
           | a # rest \<Rightarrow> (push uta a (h\<lparr>inTransaction := NOT_IN_TRANSACTION\<rparr>), rest)))"

text \<open>
  \<^verbatim>\<open>undo\<close>: result (\<open>None\<close> is \<^verbatim>\<open>null\<close>), new state, and the actions whose push is still
  pending in the un-awaited commit.
\<close>

definition undo ::
    "('a list \<Rightarrow> 'a \<Rightarrow> 'a list) \<Rightarrow> ('a \<Rightarrow> 'a) \<Rightarrow> 'a HistoryManager
      \<Rightarrow> 'a option \<times> 'a HistoryManager \<times> 'a list" where
  "undo uta ua h =
     (let (h1, pending) =
            (if isInTransaction h then commitTransaction_unawaited uta h else (h, []))
      in case rev (undoStack h1) of
           [] \<Rightarrow> (None, h1, pending)
         | tp # below \<Rightarrow>
             (let h2 = h1\<lparr>undoStack := rev below\<rparr>;
                  action = ua tp
              in (Some action, h2\<lparr>redoStack := redoStack h2 @ [tp]\<rparr>, pending)))"

definition redo ::
    "('a list \<Rightarrow> 'a \<Rightarrow> 'a list) \<Rightarrow> ('a \<Rightarrow> 'a) \<Rightarrow> 'a HistoryManager
      \<Rightarrow> 'a option \<times> 'a HistoryManager \<times> 'a list" where
  "redo uta tra h =
     (let (h1, pending) =
            (if isInTransaction h then commitTransaction_unawaited uta h else (h, []))
      in case rev (redoStack h1) of
           [] \<Rightarrow> (None, h1, pending)
         | tp # below \<Rightarrow>
             (let h2 = h1\<lparr>redoStack := rev below\<rparr>;
                  action = tra tp
              in (Some action, h2\<lparr>undoStack := undoStack h2 @ [action]\<rparr>, pending)))"

definition clear :: "'a HistoryManager \<Rightarrow> 'a HistoryManager" where
  "clear h = h\<lparr>undoStack := [], redoStack := []\<rparr>"

section \<open>Action dispatcher (ActionManager)\<close>

text \<open>
  The collaborators of the dispatcher. \<open>'w\<close> is the state of the rendered views, which
  every gateway call may change; \<open>'f\<close> is what \<^verbatim>\<open>editorEngine.frames.get\<close> returns.
  A gateway call returns the element snapshot or \<^verbatim>\<open>null\<close> (\<open>None\<close>);
  \<^verbatim>\<open>insertElement\<close>, the one call inside a \<^verbatim>\<open>try\<close>, may also throw.
\<close>

datatype 'a Outcome = Threw | Returned 'a

record ('w, 'f) Engine =
  frames_get :: "'w \<Rightarrow> string \<Rightarrow> 'f option"
  theme_getColorByName :: "string \<Rightarrow> string option"
  view_updateStyle :: "'f \<Rightarrow> string \<Rightarrow> (string \<times> StyleChange) list Change \<Rightarrow> 'w \<Rightarrow> DomElement option \<times> 'w"
  view_insertElement :: "'f \<Rightarrow> string \<Rightarrow> ActionLocation \<Rightarrow> 'w \<Rightarrow> DomElement option Outcome \<times> 'w"
  view_removeElement :: "'f \<Rightarrow> ActionLocation \<Rightarrow> 'w \<Rightarrow> DomElement option \<times> 'w"
  view_moveElement :: "'f \<Rightarrow> string \<Rightarrow> int \<Rightarrow> 'w \<Rightarrow> DomElement option \<times> 'w"
  view_editText :: "'f \<Rightarrow> string \<Rightarrow> string \<Rightarrow> 'w \<Rightarrow> DomElement option \<times> 'w"
  view_groupElements :: "'f \<Rightarrow> ActionTarget \<Rightarrow> string \<Rightarrow> ActionTarget list \<Rightarrow> 'w \<Rightarrow> DomElement option \<times> 'w"
  view_ungroupElements :: "'f \<Rightarrow> ActionTarget \<Rightarrow> string \<Rightarrow> 'w \<Rightarrow> DomElement option \<times> 'w"

text \<open>
  What the dispatcher does to the outside is a trace of events: console output, the gateway
  calls with their arguments, and the calls to the selection, overlay and editor-mode
  collaborators. \<open>RefreshDomElement\<close> is the call of the debounced
  \<^verbatim>\<open>refreshDomElement\<close>; when the debounce lets it through is a matter of time and is not
  part of the model.
\<close>

datatype 'f Event =
    ConsoleError string
  | ConsoleWarn string
  | ViewUpdateStyle 'f string "(string \<times> StyleChange) list Change"
  | ViewInsertElement 'f string ActionLocation
  | ViewRemoveElement 'f ActionLocation
  | ViewMoveElement 'f string int
  | ViewEditText 'f string string
  | ViewGroupElements 'f ActionTarget string "ActionTarget list"
  | ViewUngroupElements 'f ActionTarget string
  | OverlayRefresh
  | SetEditorModeDesign
  | ElementsClick "DomElement list"
  | RefreshDomElement "DomElement list"

text \<open>
  The state the dispatcher works on: the store of the \<open>StyleChange\<close> objects that
  actions refer to, the state of the rendered views, and the trace so far.
\<close>

type_synonym addr = nat

record ('w, 'f) Sys =
  store :: "addr \<Rightarrow> StyleChange"
  world :: 'w
  trace :: "'f Event list"

definition emit :: "'f Event \<Rightarrow> ('w, 'f) Sys \<Rightarrow> ('w, 'f) Sys" where
  "emit e s = s\<lparr>trace := trace s @ [e]\<rparr>"

text \<open>
  A \<^verbatim>\<open>for (const x of xs)\<close> loop whose body may \<^verbatim>\<open>return\<close> from the enclosing function:
  the body says whether the loop goes on (\<^verbatim>\<open>continue\<close>, or the end of the body) or the
  function returns.
\<close>

datatype Flow = Continue | Return

fun forOf :: "('t \<Rightarrow> 's \<Rightarrow> Flow \<times> 's) \<Rightarrow> 't list \<Rightarrow> 's \<Rightarrow> Flow \<times> 's" where
  "forOf body [] s = (Continue, s)"
| "forOf body (t # ts) s =
     (case body t s of
        (Return, s') \<Rightarrow> (Return, s')
      | (Continue, s') \<Rightarrow> forOf body ts s')"

text \<open>
  The regular expression \<^verbatim>\<open>/^(#|rgb|hsl)/i\<close>: the string starts with \<^verbatim>\<open>#\<close>, or with
  \<^verbatim>\<open>rgb\<close> or \<^verbatim>\<open>hsl\<close> in any mix of upper and lower case.
\<close>

fun starts_ci :: "(char \<times> char) list \<Rightarrow> string \<Rightarrow> bool" where
  "starts_ci [] s = True"
| "starts_ci ((l, u) # p) [] = False"
| "starts_ci ((l, u) # p) (c # s) = ((c = l \<or> c = u) \<and> starts_ci p s)"

definition literal_color_test :: "string \<Rightarrow> bool" where
  "literal_color_test s =
     (starts_ci [(CHR ''#'', CHR ''#'')] s
      \<or> starts_ci [(CHR ''r'', CHR ''R''), (CHR ''g'', CHR ''G''), (CHR ''b'', CHR ''B'')] s
      \<or> starts_ci [(CHR ''h'', CHR ''H''), (CHR ''s'', CHR ''S''), (CHR ''l'', CHR ''L'')] s)"

text \<open>
  The callback of \<^verbatim>\<open>Object.entries(target.change.updated).map\<close>, on the content of the
  \<open>StyleChange\<close> object it is given: the content the object has afterwards, and the warnings.
  \<^verbatim>\<open>if (resolved)\<close> is JavaScript truthiness: \<^verbatim>\<open>undefined\<close> and the empty string both fail.
\<close>

definition resolveCustom :: "(string \<Rightarrow> string option) \<Rightarrow> StyleChange \<Rightarrow> StyleChange \<times> string list" where
  "resolveCustom getColorByName v =
     (if sc_type v = Custom then
        (case getColorByName (sc_value v) of
           Some resolved \<Rightarrow>
             (if resolved \<noteq> [] then (\<lparr>sc_value = resolved, sc_type = Value\<rparr>, [])
              else if literal_color_test (sc_value v) then (v\<lparr>sc_type := Value\<rparr>, [])
              else (v, [''Unknown design token: '' @ sc_value v]))
         | None \<Rightarrow>
             (if literal_color_test (sc_value v) then (v\<lparr>sc_type := Value\<rparr>, [])
              else (v, [''Unknown design token: '' @ sc_value v])))
      else (v, []))"

text \<open>
  The callback assigns to \<^verbatim>\<open>value.value\<close> and \<^verbatim>\<open>value.type\<close>, that is, to the object the
  entry of the action refers to, and returns \<^verbatim>\<open>[key, value]\<close> with the same object:
  \<^verbatim>\<open>convertedChange\<close> is a new record with the entries of \<^verbatim>\<open>target.change.updated\<close>, and
  the store is what changes.
\<close>

definition convertEntry ::
    "(string \<Rightarrow> string option) \<Rightarrow> string \<times> addr \<Rightarrow> (addr \<Rightarrow> StyleChange) \<times> string list
      \<Rightarrow> (addr \<Rightarrow> StyleChange) \<times> string list" where
  "convertEntry getColorByName e = (\<lambda>(m, warns).
     (m(snd e := fst (resolveCustom getColorByName (m (snd e)))),
      warns @ snd (resolveCustom getColorByName (m (snd e)))))"

definition convertedChange ::
    "(string \<Rightarrow> string option) \<Rightarrow> (string \<times> addr) list \<Rightarrow> (addr \<Rightarrow> StyleChange)
      \<Rightarrow> (addr \<Rightarrow> StyleChange) \<times> string list" where
  "convertedChange getColorByName entries m = fold (convertEntry getColorByName) entries (m, [])"

text \<open>\<^verbatim>\<open>cloneDeep(change)\<close>: the value of the change, read from the store.\<close>

definition cloneDeep :: "(addr \<Rightarrow> StyleChange) \<Rightarrow> (string \<times> addr) list Change \<Rightarrow> (string \<times> StyleChange) list Change" where
  "cloneDeep m c =
     \<lparr>original = map (\<lambda>(k, a). (k, m a)) (original c),
      updated = map (\<lambda>(k, a). (k, m a)) (updated c)\<rparr>"

definition updateStyle_body ::
    "('w, 'f) Engine \<Rightarrow> addr StyleActionTarget \<Rightarrow> DomElement list \<times> ('w, 'f) Sys
      \<Rightarrow> Flow \<times> (DomElement list \<times> ('w, 'f) Sys)" where
  "updateStyle_body E target = (\<lambda>(domEls, s).
     case frames_get E (world s) (frameId target) of
       None \<Rightarrow> (Return, (domEls, emit (ConsoleError ''Failed to get frameView'') s))
     | Some frameData \<Rightarrow>
         (let conv = convertedChange (theme_getColorByName E) (updated (change target)) (store s);
              s1 = s\<lparr>store := fst conv, trace := trace s @ map ConsoleWarn (snd conv)\<rparr>;
              chg = cloneDeep (store s1)
                      \<lparr>original = original (change target), updated = updated (change target)\<rparr>;
              res = view_updateStyle E frameData (domId target) chg (world s1);
              s2 = (emit (ViewUpdateStyle frameData (domId target) chg) s1)\<lparr>world := snd res\<rparr>
          in case fst res of
               None \<Rightarrow> (Continue, (domEls, emit (ConsoleError ''Failed to update style'') s2))
             | Some domEl \<Rightarrow> (Continue, (domEls @ [domEl], s2))))"

definition updateStyle :: "('w, 'f) Engine \<Rightarrow> addr StyleActionTarget list \<Rightarrow> ('w, 'f) Sys \<Rightarrow> ('w, 'f) Sys" where
  "updateStyle E targets s =
     (case forOf (updateStyle_body E) targets ([], s) of
        (Return, (domEls, s')) \<Rightarrow> s'
      | (Continue, (domEls, s')) \<Rightarrow> emit (RefreshDomElement domEls) s')"

definition refreshAndClickMutatedElement :: "DomElement \<Rightarrow> ('w, 'f) Sys \<Rightarrow> ('w, 'f) Sys" where
  "refreshAndClickMutatedElement domEl s = emit (ElementsClick [domEl]) (emit SetEditorModeDesign s)"



definition removeElement_body ::
    "('w, 'f) Engine \<Rightarrow> ActionLocation \<Rightarrow> ActionTarget \<Rightarrow> ('w, 'f) Sys \<Rightarrow> Flow \<times> ('w, 'f) Sys" where
  "removeElement_body E location target s =
     (case frames_get E (world s) (frameId target) of
        None \<Rightarrow> (Return, emit (ConsoleError ''Failed to get frameView'') s)
      | Some frameView \<Rightarrow>
          (let res = view_removeElement E frameView location (world s);
               s1 = (emit (ViewRemoveElement frameView location) s)\<lparr>world := snd res\<rparr>
           in case fst res of
                None \<Rightarrow> (Return, emit (ConsoleError ''Failed to remove element'') s1)
              | Some domEl \<Rightarrow> (Continue, refreshAndClickMutatedElement domEl (emit OverlayRefresh s1))))"

definition removeElement ::
    "('w, 'f) Engine \<Rightarrow> ActionTarget list \<Rightarrow> ActionLocation \<Rightarrow> ('w, 'f) Sys \<Rightarrow> ('w, 'f) Sys" where
  "removeElement E targets location s = snd (forOf (removeElement_body E location) targets s)"

definition moveElement_body ::
    "('w, 'f) Engine \<Rightarrow> ActionLocation \<Rightarrow> ActionTarget \<Rightarrow> ('w, 'f) Sys \<Rightarrow> Flow \<times> ('w, 'f) Sys" where
  "moveElement_body E location target s =
     (case frames_get E (world s) (frameId target) of
        None \<Rightarrow> (Return, emit (ConsoleError ''Failed to get frameView'') s)
      | Some frameView \<Rightarrow>
          (let res = view_moveElement E frameView (domId target) (loc_index location) (world s);
               s1 = (emit (ViewMoveElement frameView (domId target) (loc_index location)) s)\<lparr>world := snd res\<rparr>
           in case fst res of
                None \<Rightarrow> (Return, emit (ConsoleError ''Failed to move element'') s1)
              | Some domEl \<Rightarrow> (Continue, refreshAndClickMutatedElement domEl s1)))"

definition moveElement ::
    "('w, 'f) Engine \<Rightarrow> ActionTarget list \<Rightarrow> ActionLocation \<Rightarrow> ('w, 'f) Sys \<Rightarrow> ('w, 'f) Sys" where
  "moveElement E targets location s = snd (forOf (moveElement_body E location) targets s)"









section \<open>Action runner (ActionManager.run, undo, redo) and the observable history\<close>














section \<open>Style manager (style/index.ts)\<close>

datatype StyleMode = Instance | Root

definition defaults :: "(string \<times> string) list" where
  "defaults =
     [(''opacity'', ''1''),
      (''visibility'', ''visible''),
      (''display'', ''block''),
      (''color'', ''rgb(0, 0, 0)''),
      (''backgroundColor'', ''rgba(0, 0, 0, 0)''),
      (''fontSize'', ''16px''),
      (''fontWeight'', ''400''),
      (''lineHeight'', ''normal''),
      (''textAlign'', ''start''),
      (''width'', ''auto''),
      (''height'', ''auto''),
      (''margin'', ''0px''),
      (''padding'', ''0px''),
      (''border'', ''0px none rgb(0, 0, 0)''),
      (''borderRadius'', ''0px''),
      (''marginTop'', ''0px''),
      (''marginRight'', ''0px''),
      (''marginBottom'', ''0px''),
      (''marginLeft'', ''0px''),
      (''paddingTop'', ''0px''),
      (''paddingRight'', ''0px''),
      (''paddingBottom'', ''0px''),
      (''paddingLeft'', ''0px''),
      (''top'', ''auto''),
      (''right'', ''auto''),
      (''bottom'', ''auto''),
      (''left'', ''auto''),
      (''position'', ''static''),
      (''zIndex'', ''auto''),
      (''transform'', ''none''),
      (''transformOrigin'', ''50% 50% 0px''),
      (''boxShadow'', ''none''),
      (''textDecoration'', ''none solid rgb(0, 0, 0)''),
      (''textDecorationLine'', ''none''),
      (''textTransform'', ''none''),
      (''letterSpacing'', ''normal''),
      (''wordSpacing'', ''normal''),
      (''fontFamily'', ''inherit''),
      (''fontStyle'', ''normal''),
      (''fontVariant'', ''normal''),
      (''borderWidth'', ''0px''),
      (''borderStyle'', ''none''),
      (''borderColor'', ''rgb(0, 0, 0)''),
      (''borderTopWidth'', ''0px''),
      (''borderRightWidth'', ''0px''),
      (''borderBottomWidth'', ''0px''),
      (''borderLeftWidth'', ''0px'')]"

text \<open>
  \<^verbatim>\<open>defaults[style] || 'initial'\<close>: a missing key and an empty entry both give
  \<^verbatim>\<open>'initial'\<close>. The style names are CSS property names (the keys of a
  \<^verbatim>\<open>CSSProperties\<close>); the members that a JavaScript object inherits from its prototype are
  not among them and are not looked at.
\<close>

definition getDefaultStyleValue :: "string \<Rightarrow> string" where
  "getDefaultStyleValue style =
     (case map_of defaults style of
        None \<Rightarrow> ''initial''
      | Some v \<Rightarrow> (if v = [] then ''initial'' else v))"

text \<open>
  \<^verbatim>\<open>selectedEl.styles?.defined[style]\<close> and \<^verbatim>\<open>selectedEl.styles?.computed[style]\<close> are
  \<^verbatim>\<open>undefined\<close> (\<open>None\<close>) when the element has no styles or the record has no such key.
\<close>

definition definedValue :: "DomElement \<Rightarrow> string \<Rightarrow> string option" where
  "definedValue selectedEl style =
     (case el_styles selectedEl of None \<Rightarrow> None | Some st \<Rightarrow> map_of (defined st) style)"

definition computedValue :: "DomElement \<Rightarrow> string \<Rightarrow> string option" where
  "computedValue selectedEl style =
     (case el_styles selectedEl of None \<Rightarrow> None | Some st \<Rightarrow> map_of (computed st) style)"

text \<open>
  \<^verbatim>\<open>definedValue ?? computedValue\<close> passes to the computed value only when the defined one
  is \<^verbatim>\<open>undefined\<close>; an empty defined value stays and then fails the test
  \<^verbatim>\<open>!currentValue || currentValue === ''\<close>.
\<close>

definition getFreshStyleValue :: "DomElement \<Rightarrow> string \<Rightarrow> string" where
  "getFreshStyleValue selectedEl style =
     (let currentValue =
            (case definedValue selectedEl style of
               Some v \<Rightarrow> Some v
             | None \<Rightarrow> computedValue selectedEl style)
      in case currentValue of
           None \<Rightarrow> getDefaultStyleValue style
         | Some v \<Rightarrow> (if v = [] then getDefaultStyleValue style else v))"

text \<open>
  \<^verbatim>\<open>getUpdateStyleAction(styles, domIds, type)\<close>. The first argument is
  \<^verbatim>\<open>editorEngine.elements.selected\<close>, \<open>None\<close> when there is no \<^verbatim>\<open>editorEngine\<close>; the second
  is \<^verbatim>\<open>this.mode\<close>. \<open>styles\<close> lists the entries of the \<^verbatim>\<open>CSSProperties\<close> object, a value
  being \<open>None\<close> when the property is \<^verbatim>\<open>undefined\<close>.
\<close>

definition updatedEntry :: "(string \<times> string option) list \<Rightarrow> StyleChangeType \<Rightarrow> string \<Rightarrow> string \<times> StyleChange" where
  "updatedEntry styles type style =
     (style,
      \<lparr>sc_value = (case map_of styles style of Some (Some v) \<Rightarrow> v | _ \<Rightarrow> []),
       sc_type = (if type = Custom then Custom else Value)\<rparr>)"

definition originalEntry :: "DomElement \<Rightarrow> string \<Rightarrow> string \<times> StyleChange" where
  "originalEntry selectedEl style =
     (style, \<lparr>sc_value = getFreshStyleValue selectedEl style, sc_type = Value\<rparr>)"

definition styleTarget ::
    "StyleMode \<Rightarrow> (string \<times> string option) list \<Rightarrow> StyleChangeType \<Rightarrow> DomElement
      \<Rightarrow> StyleChange StyleActionTarget" where
  "styleTarget mode styles type selectedEl =
     \<lparr>frameId = el_frameId selectedEl,
      domId = el_domId selectedEl,
      oid = (if mode = Instance then el_instanceId selectedEl else el_oid selectedEl),
      change =
        \<lparr>original = map (originalEntry selectedEl) (map fst styles),
         updated = map (updatedEntry styles type) (map fst styles)\<rparr>\<rparr>"

definition getUpdateStyleAction ::
    "DomElement list option \<Rightarrow> StyleMode \<Rightarrow> (string \<times> string option) list \<Rightarrow> string list
      \<Rightarrow> StyleChangeType \<Rightarrow> StyleChange Action" where
  "getUpdateStyleAction engineSelected mode styles domIds type =
     (case engineSelected of
        None \<Rightarrow> UpdateStyle []
      | Some selected \<Rightarrow>
          (let filteredSelected =
                 (if length domIds > 0 then filter (\<lambda>el. el_domId el \<in> set domIds) selected
                  else selected)
           in UpdateStyle (map (styleTarget mode styles type) filteredSelected)))"

section \<open>The merge rule of the transaction buffer\<close>

text \<open>
  Modelled from the spec: \<^verbatim>\<open>updateTransactionActions\<close> of \<^verbatim>\<open>history/helpers.ts\<close> is not
  among the sources. The spec (4.2): if the buffer's last entry and the pushed action target
  the same entity and are of a mergeable kind (consecutive \<^verbatim>\<open>UpdateStyle\<close> actions on the
  same set of frameId, domId and styleTargetId), the last buffered entry's \<open>updated\<close> half is
  replaced with the pushed action's \<open>updated\<close> half and its \<open>original\<close> half is kept;
  otherwise the action is appended as a new buffer entry.
\<close>

definition target_key :: "'v StyleActionTarget \<Rightarrow> string \<times> string \<times> string option" where
  "target_key t = (frameId t, domId t, oid t)"

definition same_targets :: "'v StyleActionTarget list \<Rightarrow> 'v StyleActionTarget list \<Rightarrow> bool" where
  "same_targets ts ts' = (set (map target_key ts) = set (map target_key ts'))"

definition merge_target :: "'v StyleActionTarget list \<Rightarrow> 'v StyleActionTarget \<Rightarrow> 'v StyleActionTarget" where
  "merge_target ts' t =
     (case find (\<lambda>t'. target_key t' = target_key t) ts' of
        None \<Rightarrow> t
      | Some t' \<Rightarrow> t\<lparr>change := \<lparr>original = original (change t), updated = updated (change t')\<rparr>\<rparr>)"

fun merge_actions :: "'v Action \<Rightarrow> 'v Action \<Rightarrow> 'v Action option" where
  "merge_actions (UpdateStyle ts) (UpdateStyle ts') =
     (if same_targets ts ts' then Some (UpdateStyle (map (merge_target ts') ts)) else None)"
| "merge_actions lst a = None"

text \<open>
  Modelled from the spec: \<^verbatim>\<open>updateTransactionActions(actions, action)\<close>, the new buffer.
  The last entry is the one compared with the pushed action.
\<close>

definition updateTransactionActions :: "'v Action list \<Rightarrow> 'v Action \<Rightarrow> 'v Action list" where
  "updateTransactionActions actions a =
     (case rev actions of
        [] \<Rightarrow> actions @ [a]
      | lst # before \<Rightarrow>
          (case merge_actions lst a of
             Some merged \<Rightarrow> rev before @ [merged]
           | None \<Rightarrow> actions @ [a]))"

section \<open>The literal syntax of the spec\<close>

text \<open>
  The spec's words for the second case of token resolution are "the raw string matches a
  literal-color/length syntax". This predicate follows those words, to be compared with the
  test of the code (\<open>literal_color_test\<close>): a literal colour is taken as the code tests it,
  a literal length is a non-empty run of digits followed by a CSS unit.
\<close>

definition css_units :: "string list" where
  "css_units = [''px'', ''em'', ''rem'', ''%'', ''vh'', ''vw'', ''pt'']"

definition is_digit :: "char \<Rightarrow> bool" where
  "is_digit c = (c \<in> set ''0123456789'')"

definition spec_literal_length :: "string \<Rightarrow> bool" where
  "spec_literal_length s =
     list_ex (\<lambda>u. length u < length s
                  \<and> drop (length s - length u) s = u
                  \<and> list_all is_digit (take (length s - length u) s)) css_units"

definition spec_literal_syntax :: "string \<Rightarrow> bool" where
  "spec_literal_syntax s = (literal_color_test s \<or> spec_literal_length s)"

section \<open>Concrete actions, histories and collaborators\<close>

text \<open>Inputs at which the theorems below are evaluated.\<close>

definition ex_move :: "'v Action" where
  "ex_move =
     MoveElement [\<lparr>frameId = ''frame-1'', domId = ''el-1'', oid = None\<rparr>]
       \<lparr>targetDomId = ''parent'', loc_index = 2\<rparr>"

definition ex_edit :: "'v Action" where
  "ex_edit = EditText [\<lparr>frameId = ''frame-1'', domId = ''el-2'', oid = None\<rparr>] ''Hello''"

definition append_action :: "'a list \<Rightarrow> 'a \<Rightarrow> 'a list" where
  "append_action acts a = acts @ [a]"

definition ex_opacity :: "string \<Rightarrow> string \<Rightarrow> string \<Rightarrow> StyleChange StyleActionTarget" where
  "ex_opacity el before after =
     \<lparr>frameId = ''frame-1'', domId = el, oid = Some ''oid-1'',
      change = \<lparr>original = [(''opacity'', \<lparr>sc_value = before, sc_type = Value\<rparr>)],
                updated = [(''opacity'', \<lparr>sc_value = after, sc_type = Value\<rparr>)]\<rparr>\<rparr>"

definition ex_history :: "StyleChange Action HistoryManager" where
  "ex_history = \<lparr>undoStack = [ex_edit], redoStack = [], inTransaction = NOT_IN_TRANSACTION\<rparr>"

definition ex_el :: "string \<Rightarrow> DomElement" where
  "ex_el did =
     \<lparr>el_domId = did, el_frameId = ''frame-1'', el_oid = Some ''oid-1'', el_instanceId = None,
      el_styles = Some \<lparr>defined = [(''color'', ''red'')], computed = [(''display'', ''flex'')]\<rparr>\<rparr>"

text \<open>
  An engine with one frame, \<^verbatim>\<open>frame-1\<close>, and one design token, \<^verbatim>\<open>primary\<close>. The state of
  the rendered views is the number of mutations applied so far. Every gateway call succeeds,
  except on the element \<^verbatim>\<open>el-gone\<close>, where it returns \<^verbatim>\<open>null\<close>.
\<close>

definition ex_call :: "string \<Rightarrow> nat \<Rightarrow> DomElement option \<times> nat" where
  "ex_call did w = (if did = ''el-gone'' then (None, w) else (Some (ex_el did), Suc w))"

definition ex_engine :: "(nat, string) Engine" where
  "ex_engine =
     \<lparr>frames_get = (\<lambda>w fid. if fid = ''frame-1'' then Some ''view-1'' else None),
      theme_getColorByName = (\<lambda>name. if name = ''primary'' then Some ''#112233'' else None),
      view_updateStyle = (\<lambda>fv did chg w. ex_call did w),
      view_insertElement = (\<lambda>fv element location w. (Returned (Some (ex_el element)), Suc w)),
      view_removeElement = (\<lambda>fv location w. ex_call (targetDomId location) w),
      view_moveElement = (\<lambda>fv did i w. ex_call did w),
      view_editText = (\<lambda>fv did content w. ex_call did w),
      view_groupElements = (\<lambda>fv parent container children w. ex_call container w),
      view_ungroupElements = (\<lambda>fv parent container w. ex_call container w)\<rparr>"

text \<open>
  A store of \<open>StyleChange\<close> objects, and style targets whose halves refer to them.
\<close>

definition ex_store :: "addr \<Rightarrow> StyleChange" where
  "ex_store =
     (\<lambda>a. \<lparr>sc_value = [], sc_type = Value\<rparr>)
       (0 := \<lparr>sc_value = ''rgb(0, 0, 0)'', sc_type = Value\<rparr>,
        1 := \<lparr>sc_value = ''primary'', sc_type = Custom\<rparr>,
        2 := \<lparr>sc_value = ''auto'', sc_type = Value\<rparr>,
        3 := \<lparr>sc_value = ''16px'', sc_type = Custom\<rparr>,
        4 := \<lparr>sc_value = ''#fff'', sc_type = Custom\<rparr>)"

definition ex_style_target :: "string \<Rightarrow> string \<Rightarrow> (string \<times> addr) list \<Rightarrow> (string \<times> addr) list \<Rightarrow> addr StyleActionTarget" where
  "ex_style_target frame did orig upd =
     \<lparr>frameId = frame, domId = did, oid = Some ''oid-1'',
      change = \<lparr>original = orig, updated = upd\<rparr>\<rparr>"

definition ex_sys :: "(nat, string) Sys" where
  "ex_sys = \<lparr>store = ex_store, world = 0, trace = []\<rparr>"

definition ex_targets :: "ActionTarget list" where
  "ex_targets =
     [\<lparr>frameId = ''frame-1'', domId = ''el-1'', oid = None\<rparr>,
      \<lparr>frameId = ''frame-1'', domId = ''el-gone'', oid = None\<rparr>,
      \<lparr>frameId = ''frame-1'', domId = ''el-3'', oid = None\<rparr>]"







section \<open>Properties of the history manager\<close>

lemma push_not_in_transaction:
  "inTransaction h = NOT_IN_TRANSACTION \<Longrightarrow>
   push uta a h = h\<lparr>redoStack := [], undoStack := undoStack h @ [a]\<rparr>"
  by (simp add: push_def Let_def)

lemma fold_push_not_in_transaction:
  "inTransaction h = NOT_IN_TRANSACTION \<Longrightarrow> acts \<noteq> [] \<Longrightarrow>
   fold (push uta) acts h = h\<lparr>redoStack := [], undoStack := undoStack h @ acts\<rparr>"
proof (induction acts arbitrary: h)
  case Nil
  then show ?case by simp
next
  case (Cons a acts)
  let ?h1 = "push uta a h"
  have h1: "?h1 = h\<lparr>redoStack := [], undoStack := undoStack h @ [a]\<rparr>"
    using Cons.prems(1) by (rule push_not_in_transaction)
  show ?case
  proof (cases "acts = []")
    case True
    then show ?thesis using h1 by simp
  next
    case False
    have "inTransaction ?h1 = NOT_IN_TRANSACTION"
      using h1 Cons.prems(1) by simp
    from Cons.IH [OF this False] show ?thesis
      using h1 by simp
  qed
qed

subsection \<open>Nested startTransaction\<close>

theorem startTransaction_nested_counterexample:
  "startTransaction
     \<lparr>undoStack = [], redoStack = [], inTransaction = IN_TRANSACTION [ex_move :: StyleChange Action]\<rparr>
   \<noteq> \<lparr>undoStack = [], redoStack = [], inTransaction = IN_TRANSACTION [ex_move]\<rparr>"
  by (simp add: startTransaction_def)

text \<open>
  C3, as the code has it: \<^verbatim>\<open>startTransaction()\<close> has no guard. Called on a history that is
  already in a transaction with a non-empty buffer, it replaces the buffer by an empty one:
  the undo and redo stacks are left as they are, the buffered actions are gone, and a
  following commit pushes nothing and only closes the transaction.
\<close>

theorem startTransaction_discards_buffer:
  "inTransaction h = IN_TRANSACTION acts \<Longrightarrow> acts \<noteq> [] \<Longrightarrow>
   inTransaction (startTransaction h) = IN_TRANSACTION []
   \<and> undoStack (startTransaction h) = undoStack h
   \<and> redoStack (startTransaction h) = redoStack h
   \<and> commitTransaction uta (startTransaction h) = h\<lparr>inTransaction := NOT_IN_TRANSACTION\<rparr>"
  by (simp add: startTransaction_def commitTransaction_def)

theorem startTransaction_discards_buffer_witness:
  "inTransaction (startTransaction (ex_history\<lparr>inTransaction := IN_TRANSACTION [ex_move]\<rparr>))
     = IN_TRANSACTION []
   \<and> commitTransaction append_action
        (startTransaction (ex_history\<lparr>inTransaction := IN_TRANSACTION [ex_move]\<rparr>))
     = \<lparr>undoStack = [ex_edit], redoStack = [], inTransaction = NOT_IN_TRANSACTION\<rparr>"
proof -
  have a: "inTransaction (ex_history\<lparr>inTransaction := IN_TRANSACTION [ex_move]\<rparr>)
             = IN_TRANSACTION [ex_move]"
    by simp
  have b: "[ex_move :: StyleChange Action] \<noteq> []" by simp
  from startTransaction_discards_buffer [OF a b, of append_action]
  show ?thesis by (simp add: ex_history_def)
qed

subsection \<open>Transaction coalescing\<close>

lemma uta_empty: "updateTransactionActions [] a = [a]"
  by (simp add: updateTransactionActions_def)

lemma uta_merge_single:
  "target_key m = target_key t \<Longrightarrow>
   updateTransactionActions (pre @ [UpdateStyle [m]]) (UpdateStyle [t]) =
     pre @ [UpdateStyle [m\<lparr>change := \<lparr>original = original (change m), updated = updated (change t)\<rparr>\<rparr>]]"
  by (simp add: updateTransactionActions_def same_targets_def merge_target_def)

lemma uta_append_single:
  "target_key m \<noteq> target_key t \<Longrightarrow>
   updateTransactionActions (pre @ [UpdateStyle [m]]) (UpdateStyle [t]) =
     pre @ [UpdateStyle [m], UpdateStyle [t]]"
  by (simp add: updateTransactionActions_def same_targets_def)

lemma push_in_transaction:
  "inTransaction h = IN_TRANSACTION acts \<Longrightarrow>
   push uta a h = h\<lparr>inTransaction := IN_TRANSACTION (uta acts a)\<rparr>"
  by (simp add: push_def)

lemma target_key_merged: "target_key (m\<lparr>change := c\<rparr>) = target_key m"
  by (simp add: target_key_def)

lemma fold_push_same_target:
  "\<forall>t\<in>set ts. target_key t = target_key m \<Longrightarrow>
   fold (push updateTransactionActions) (map (\<lambda>t. UpdateStyle [t]) ts)
        (h\<lparr>inTransaction := IN_TRANSACTION (pre @ [UpdateStyle [m]])\<rparr>) =
   h\<lparr>inTransaction := IN_TRANSACTION
        (pre @ [UpdateStyle [m\<lparr>change := \<lparr>original = original (change m),
                                             updated = updated (change (last (m # ts)))\<rparr>\<rparr>]])\<rparr>"
proof (induction ts arbitrary: m)
  case Nil
  then show ?case by simp
next
  case (Cons t ts)
  let ?m' = "m\<lparr>change := \<lparr>original = original (change m), updated = updated (change t)\<rparr>\<rparr>"
  have key: "target_key m = target_key t" using Cons.prems by simp
  have step: "push updateTransactionActions (UpdateStyle [t])
                (h\<lparr>inTransaction := IN_TRANSACTION (pre @ [UpdateStyle [m]])\<rparr>) =
              h\<lparr>inTransaction := IN_TRANSACTION (pre @ [UpdateStyle [?m']])\<rparr>"
    by (simp add: push_in_transaction uta_merge_single [OF key])
  have "\<forall>t'\<in>set ts. target_key t' = target_key ?m'"
    using Cons.prems by (simp add: target_key_merged)
  from Cons.IH [OF this] show ?case
    using step by (cases ts) simp_all
qed

lemma fold_push_distinct_targets:
  "distinct (map target_key (m # ts)) \<Longrightarrow>
   fold (push updateTransactionActions) (map (\<lambda>t. UpdateStyle [t]) ts)
        (h\<lparr>inTransaction := IN_TRANSACTION (pre @ [UpdateStyle [m]])\<rparr>) =
   h\<lparr>inTransaction := IN_TRANSACTION (pre @ UpdateStyle [m] # map (\<lambda>t. UpdateStyle [t]) ts)\<rparr>"
proof (induction ts arbitrary: m pre)
  case Nil
  then show ?case by simp
next
  case (Cons t ts)
  have key: "target_key m \<noteq> target_key t" using Cons.prems by auto
  have step: "push updateTransactionActions (UpdateStyle [t])
                (h\<lparr>inTransaction := IN_TRANSACTION (pre @ [UpdateStyle [m]])\<rparr>) =
              h\<lparr>inTransaction := IN_TRANSACTION ((pre @ [UpdateStyle [m]]) @ [UpdateStyle [t]])\<rparr>"
    by (simp add: push_in_transaction uta_append_single [OF key])
  have "distinct (map target_key (t # ts))" using Cons.prems by simp
  from Cons.IH [OF this, where pre = "pre @ [UpdateStyle [m]]"] show ?case
    using step by simp
qed

lemma commit_buffer:
  "acts \<noteq> [] \<Longrightarrow>
   commitTransaction uta (h\<lparr>inTransaction := IN_TRANSACTION acts\<rparr>) =
   h\<lparr>inTransaction := NOT_IN_TRANSACTION, redoStack := [], undoStack := undoStack h @ acts\<rparr>"
  using fold_push_not_in_transaction [of "h\<lparr>inTransaction := NOT_IN_TRANSACTION\<rparr>" acts uta]
  by (simp add: commitTransaction_def)

text \<open>
  C4, with the merge rule as the spec words it: a transaction is opened, \<open>N \<ge> 1\<close>
  \<^verbatim>\<open>UpdateStyle\<close> actions, each on one target, are pushed, and the transaction is committed.
  If all targets have the same frameId, domId and styleTargetId, the undo stack gains exactly
  one entry, whose \<open>original\<close> half is that of the first action (the value before the
  transaction) and whose \<open>updated\<close> half is that of the last action. If the targets are
  pairwise different, the undo stack gains the \<open>N\<close> actions, one entry each, in order.
\<close>

theorem transaction_coalescing:
  "ts \<noteq> [] \<Longrightarrow>
   ((\<forall>t\<in>set ts. target_key t = target_key (hd ts)) \<longrightarrow>
      commitTransaction updateTransactionActions
        (fold (push updateTransactionActions) (map (\<lambda>t. UpdateStyle [t]) ts) (startTransaction h)) =
      h\<lparr>inTransaction := NOT_IN_TRANSACTION, redoStack := [],
        undoStack := undoStack h @
          [UpdateStyle [(hd ts)\<lparr>change := \<lparr>original = original (change (hd ts)),
                                            updated = updated (change (last ts))\<rparr>\<rparr>]]\<rparr>)
   \<and> (distinct (map target_key ts) \<longrightarrow>
      commitTransaction updateTransactionActions
        (fold (push updateTransactionActions) (map (\<lambda>t. UpdateStyle [t]) ts) (startTransaction h)) =
      h\<lparr>inTransaction := NOT_IN_TRANSACTION, redoStack := [],
        undoStack := undoStack h @ map (\<lambda>t. UpdateStyle [t]) ts\<rparr>)"
proof -
  assume "ts \<noteq> []"
  then obtain m rest where ts: "ts = m # rest" by (cases ts) auto
  have first: "push updateTransactionActions (UpdateStyle [m]) (startTransaction h) =
               h\<lparr>inTransaction := IN_TRANSACTION ([] @ [UpdateStyle [m]])\<rparr>"
    by (simp add: push_def startTransaction_def uta_empty)
  have same: "\<forall>t\<in>set rest. target_key t = target_key m \<Longrightarrow>
      commitTransaction updateTransactionActions
        (fold (push updateTransactionActions) (map (\<lambda>t. UpdateStyle [t]) ts) (startTransaction h)) =
      h\<lparr>inTransaction := NOT_IN_TRANSACTION, redoStack := [],
        undoStack := undoStack h @
          [UpdateStyle [m\<lparr>change := \<lparr>original = original (change m),
                                       updated = updated (change (last (m # rest)))\<rparr>\<rparr>]]\<rparr>"
    using fold_push_same_target [where ts = rest and m = m and h = h and pre = "[]"]
    by (simp add: ts first commit_buffer del: last.simps)
  have dist: "distinct (map target_key (m # rest)) \<Longrightarrow>
      commitTransaction updateTransactionActions
        (fold (push updateTransactionActions) (map (\<lambda>t. UpdateStyle [t]) ts) (startTransaction h)) =
      h\<lparr>inTransaction := NOT_IN_TRANSACTION, redoStack := [],
        undoStack := undoStack h @ map (\<lambda>t. UpdateStyle [t]) (m # rest)\<rparr>"
    using fold_push_distinct_targets [where ts = rest and m = m and h = h and pre = "[]"]
    by (simp add: ts first commit_buffer)
  show ?thesis using same dist by (simp add: ts del: last.simps)
qed

theorem transaction_coalescing_witness:
  "commitTransaction updateTransactionActions
     (fold (push updateTransactionActions)
        [UpdateStyle [ex_opacity ''el-1'' ''1'' ''0.8''], UpdateStyle [ex_opacity ''el-1'' ''0.8'' ''0.5''],
         UpdateStyle [ex_opacity ''el-1'' ''0.5'' ''0.2'']]
        (startTransaction ex_history))
   = \<lparr>undoStack = [ex_edit, UpdateStyle [ex_opacity ''el-1'' ''1'' ''0.2'']], redoStack = [],
      inTransaction = NOT_IN_TRANSACTION\<rparr>
   \<and> commitTransaction updateTransactionActions
     (fold (push updateTransactionActions)
        [UpdateStyle [ex_opacity ''el-1'' ''1'' ''0.8''], UpdateStyle [ex_opacity ''el-2'' ''1'' ''0.5'']]
        (startTransaction ex_history))
   = \<lparr>undoStack = [ex_edit, UpdateStyle [ex_opacity ''el-1'' ''1'' ''0.8''],
                    UpdateStyle [ex_opacity ''el-2'' ''1'' ''0.5'']],
      redoStack = [], inTransaction = NOT_IN_TRANSACTION\<rparr>"
  using transaction_coalescing
          [of "[ex_opacity ''el-1'' ''1'' ''0.8'', ex_opacity ''el-1'' ''0.8'' ''0.5'',
                ex_opacity ''el-1'' ''0.5'' ''0.2'']" ex_history]
        transaction_coalescing
          [of "[ex_opacity ''el-1'' ''1'' ''0.8'', ex_opacity ''el-2'' ''1'' ''0.5'']" ex_history]
  by (simp add: target_key_def ex_opacity_def ex_history_def)

subsection \<open>Stack lengths under undo and redo\<close>

theorem undo_stack_lengths_counterexample:
  "\<not> (length [ex_move :: StyleChange Action, ex_edit] =
          length (undoStack (fst (snd (undo append_action id
             \<lparr>undoStack = [ex_move :: StyleChange Action, ex_edit], redoStack = [],
              inTransaction = NOT_IN_TRANSACTION\<rparr>)))) + 1
       \<and> length (undoStack (fst (snd (undo append_action id
             \<lparr>undoStack = [ex_move :: StyleChange Action, ex_edit], redoStack = [],
              inTransaction = NOT_IN_TRANSACTION\<rparr>)))) + 1 =
          length (redoStack (fst (snd (undo append_action id
             \<lparr>undoStack = [ex_move :: StyleChange Action, ex_edit], redoStack = [],
              inTransaction = NOT_IN_TRANSACTION\<rparr>)))))"
  by (simp add: undo_def isInTransaction_def Let_def)

text \<open>
  C5, as the code has it: on a history with no buffered actions (not in a transaction, or in
  one whose buffer is empty), \<^verbatim>\<open>undo()\<close> on a non-empty undo stack returns an action, makes
  the undo stack one shorter and the redo stack one longer; \<^verbatim>\<open>redo()\<close> on a non-empty redo
  stack returns an action, makes the redo stack one shorter and the undo stack one longer.
\<close>

theorem undo_redo_stack_lengths:
  "bufferedActions h = [] \<Longrightarrow>
   (undoStack h \<noteq> [] \<longrightarrow>
      (case undo uta ua h of (r, h', p) \<Rightarrow>
         r \<noteq> None
         \<and> length (undoStack h) = length (undoStack h') + 1
         \<and> length (redoStack h') = length (redoStack h) + 1))
   \<and> (redoStack h \<noteq> [] \<longrightarrow>
      (case redo uta tra h of (r, h', p) \<Rightarrow>
         r \<noteq> None
         \<and> length (redoStack h) = length (redoStack h') + 1
         \<and> length (undoStack h') = length (undoStack h) + 1))"
  by (cases "inTransaction h"; cases "undoStack h" rule: rev_cases; cases "redoStack h" rule: rev_cases)
     (simp_all add: undo_def redo_def isInTransaction_def bufferedActions_def
        commitTransaction_unawaited_def Let_def)

theorem undo_redo_stack_lengths_witness:
  "(case undo append_action id
          \<lparr>undoStack = [ex_move :: StyleChange Action, ex_edit], redoStack = [ex_move],
           inTransaction = NOT_IN_TRANSACTION\<rparr> of
      (r, h', p) \<Rightarrow> r \<noteq> None \<and> length (undoStack h') = 1 \<and> length (redoStack h') = 2)
   \<and> (case redo append_action id
          \<lparr>undoStack = [ex_move :: StyleChange Action, ex_edit], redoStack = [ex_move],
           inTransaction = NOT_IN_TRANSACTION\<rparr> of
      (r, h', p) \<Rightarrow> r \<noteq> None \<and> length (redoStack h') = 0 \<and> length (undoStack h') = 3)"
proof -
  let ?h = "\<lparr>undoStack = [ex_move :: StyleChange Action, ex_edit], redoStack = [ex_move],
             inTransaction = NOT_IN_TRANSACTION\<rparr>"
  have b: "bufferedActions ?h = []" by (simp add: bufferedActions_def)
  from undo_redo_stack_lengths [OF b, of append_action id id]
  show ?thesis by (auto split: prod.splits)
qed

subsection \<open>Redo invalidation\<close>

text \<open>
  C6: on a history that is not in a transaction and has a non-empty redo stack, pushing any
  action leaves the redo stack empty, and a \<^verbatim>\<open>redo()\<close> after it returns \<^verbatim>\<open>null\<close> and
  changes nothing.
\<close>

theorem push_clears_redo:
  "inTransaction h = NOT_IN_TRANSACTION \<Longrightarrow> redoStack h \<noteq> [] \<Longrightarrow>
   redoStack (push uta a h) = []
   \<and> redo uta tra (push uta a h) = (None, push uta a h, [])"
  by (simp add: push_def redo_def isInTransaction_def Let_def)

theorem push_clears_redo_witness:
  "redoStack (push append_action ex_edit
      \<lparr>undoStack = [], redoStack = [ex_move :: StyleChange Action], inTransaction = NOT_IN_TRANSACTION\<rparr>) = []
   \<and> fst (redo append_action id (push append_action ex_edit
      \<lparr>undoStack = [], redoStack = [ex_move :: StyleChange Action], inTransaction = NOT_IN_TRANSACTION\<rparr>)) = None"
proof -
  let ?h = "\<lparr>undoStack = [], redoStack = [ex_move :: StyleChange Action],
             inTransaction = NOT_IN_TRANSACTION\<rparr>"
  have a: "inTransaction ?h = NOT_IN_TRANSACTION" by simp
  have b: "redoStack ?h \<noteq> []" by simp
  from push_clears_redo [OF a b, of append_action ex_edit id]
  show ?thesis by simp
qed

subsection \<open>clear() and an open transaction\<close>

text \<open>
  C9: \<^verbatim>\<open>clear()\<close> empties the undo and redo stacks and leaves the transaction state as it
  is. If a transaction with buffered actions is open, the buffer is still there after
  \<^verbatim>\<open>clear()\<close>, and a later \<^verbatim>\<open>commitTransaction()\<close> pushes the buffered actions onto the
  emptied undo stack.
\<close>

theorem clear_keeps_transaction:
  "inTransaction h = IN_TRANSACTION acts \<Longrightarrow> acts \<noteq> [] \<Longrightarrow>
   undoStack (clear h) = [] \<and> redoStack (clear h) = []
   \<and> inTransaction (clear h) = IN_TRANSACTION acts
   \<and> commitTransaction uta (clear h) =
       \<lparr>undoStack = acts, redoStack = [], inTransaction = NOT_IN_TRANSACTION\<rparr>"
proof -
  assume a: "inTransaction h = IN_TRANSACTION acts" and ne: "acts \<noteq> []"
  let ?h0 = "(clear h)\<lparr>inTransaction := NOT_IN_TRANSACTION\<rparr>"
  have "inTransaction ?h0 = NOT_IN_TRANSACTION" by simp
  from fold_push_not_in_transaction [OF this ne]
  have "fold (push uta) acts ?h0 =
          \<lparr>undoStack = acts, redoStack = [], inTransaction = NOT_IN_TRANSACTION\<rparr>"
    by (simp add: clear_def)
  then show ?thesis using a ne by (simp add: clear_def commitTransaction_def)
qed

theorem clear_keeps_transaction_witness:
  "inTransaction (clear (ex_history\<lparr>inTransaction := IN_TRANSACTION [ex_move, ex_edit]\<rparr>))
     = IN_TRANSACTION [ex_move, ex_edit]
   \<and> commitTransaction append_action
        (clear (ex_history\<lparr>inTransaction := IN_TRANSACTION [ex_move, ex_edit]\<rparr>))
     = \<lparr>undoStack = [ex_move, ex_edit], redoStack = [], inTransaction = NOT_IN_TRANSACTION\<rparr>"
proof -
  have a: "inTransaction (ex_history\<lparr>inTransaction := IN_TRANSACTION [ex_move, ex_edit]\<rparr>)
             = IN_TRANSACTION [ex_move, ex_edit]"
    by simp
  have b: "[ex_move :: StyleChange Action, ex_edit] \<noteq> []" by simp
  from clear_keeps_transaction [OF a b, of append_action]
  show ?thesis by simp
qed

section \<open>Properties of the style manager\<close>

lemma getDefaultStyleValue_nonempty: "getDefaultStyleValue style \<noteq> []"
  by (simp add: getDefaultStyleValue_def split: option.splits)

lemma getDefaultStyleValue_table:
  "getDefaultStyleValue style = ''initial'' \<or> (style, getDefaultStyleValue style) \<in> set defaults"
  by (auto simp: getDefaultStyleValue_def split: option.splits dest: map_of_SomeD)

lemma getFreshStyleValue_nonempty: "getFreshStyleValue el style \<noteq> []"
  by (simp add: getFreshStyleValue_def getDefaultStyleValue_nonempty Let_def split: option.splits)

lemma getFreshStyleValue_default:
  "definedValue el style = None \<Longrightarrow> computedValue el style = None \<Longrightarrow>
   getFreshStyleValue el style = getDefaultStyleValue style"
  by (simp add: getFreshStyleValue_def)

text \<open>
  C10: in every action that \<^verbatim>\<open>getUpdateStyleAction\<close> builds, each entry of a target's
  \<open>original\<close> half has type \<open>Value\<close> and a non-empty value. The target was built from a
  selected element, and when that element has neither a defined nor a computed value for the
  property, the original value is the default of the property: its entry in the table of
  defaults, or \<^verbatim>\<open>initial\<close>.
\<close>

theorem getUpdateStyleAction_original:
  "getUpdateStyleAction engineSelected mode styles domIds type = UpdateStyle targets \<Longrightarrow>
   t \<in> set targets \<Longrightarrow> (k, v) \<in> set (original (change t)) \<Longrightarrow>
   sc_type v = Value \<and> sc_value v \<noteq> []
   \<and> (\<exists>selected el. engineSelected = Some selected \<and> el \<in> set selected
         \<and> t = styleTarget mode styles type el
         \<and> (definedValue el k = None \<and> computedValue el k = None \<longrightarrow>
              sc_value v = getDefaultStyleValue k
              \<and> (sc_value v = ''initial'' \<or> (k, sc_value v) \<in> set defaults)))"
proof -
  assume act: "getUpdateStyleAction engineSelected mode styles domIds type = UpdateStyle targets"
    and t: "t \<in> set targets" and kv: "(k, v) \<in> set (original (change t))"
  from act t obtain selected where sel: "engineSelected = Some selected"
    by (cases engineSelected) (auto simp: getUpdateStyleAction_def)
  from act t sel obtain el where el: "el \<in> set selected" "t = styleTarget mode styles type el"
    by (auto simp: getUpdateStyleAction_def Let_def split: if_splits)
  from kv el(2) have v: "v = \<lparr>sc_value = getFreshStyleValue el k, sc_type = Value\<rparr>"
    by (auto simp: styleTarget_def originalEntry_def)
  have "definedValue el k = None \<and> computedValue el k = None \<longrightarrow>
          sc_value v = getDefaultStyleValue k
          \<and> (sc_value v = ''initial'' \<or> (k, sc_value v) \<in> set defaults)"
    using v getDefaultStyleValue_table [of k] by (auto simp: getFreshStyleValue_default)
  then show ?thesis
    using v sel el by (auto simp: getFreshStyleValue_nonempty)
qed

theorem getUpdateStyleAction_original_witness:
  "getUpdateStyleAction (Some [ex_el ''el-1'']) Root [(''color'', Some ''blue''), (''opacity'', Some ''0.5'')] [] Custom
     = UpdateStyle [styleTarget Root [(''color'', Some ''blue''), (''opacity'', Some ''0.5'')] Custom (ex_el ''el-1'')]
   \<and> original (change (styleTarget Root [(''color'', Some ''blue''), (''opacity'', Some ''0.5'')] Custom (ex_el ''el-1'')))
     = [(''color'', \<lparr>sc_value = ''red'', sc_type = Value\<rparr>), (''opacity'', \<lparr>sc_value = ''1'', sc_type = Value\<rparr>)]
   \<and> definedValue (ex_el ''el-1'') ''opacity'' = None \<and> computedValue (ex_el ''el-1'') ''opacity'' = None
   \<and> (''opacity'', ''1'') \<in> set defaults"
proof -
  let ?styles = "[(''color'', Some ''blue''), (''opacity'', Some ''0.5'')]"
  let ?t = "styleTarget Root ?styles Custom (ex_el ''el-1'')"
  have a: "getUpdateStyleAction (Some [ex_el ''el-1'']) Root ?styles [] Custom = UpdateStyle [?t]"
    by (simp add: getUpdateStyleAction_def)
  have o: "original (change ?t) =
      [(''color'', \<lparr>sc_value = ''red'', sc_type = Value\<rparr>), (''opacity'', \<lparr>sc_value = ''1'', sc_type = Value\<rparr>)]"
    by (simp add: styleTarget_def originalEntry_def getFreshStyleValue_def definedValue_def
        computedValue_def ex_el_def getDefaultStyleValue_def defaults_def)
  have b: "?t \<in> set [?t]" by simp
  have c: "(''opacity'', \<lparr>sc_value = ''1'', sc_type = Value\<rparr>) \<in> set (original (change ?t))"
    by (simp add: o)
  have d: "definedValue (ex_el ''el-1'') ''opacity'' = None \<and> computedValue (ex_el ''el-1'') ''opacity'' = None"
    by (simp add: definedValue_def computedValue_def ex_el_def)
  from getUpdateStyleAction_original [OF a b c] d
  show ?thesis using a o by auto
qed

section \<open>Properties of the dispatcher\<close>

lemma forOf_append:
  "forOf body (xs @ ys) s =
     (case forOf body xs s of
        (Return, s') \<Rightarrow> (Return, s')
      | (Continue, s') \<Rightarrow> forOf body ys s')"
  by (induction xs arbitrary: s) (auto split: prod.splits Flow.splits)

lemma forOf_stops:
  "forOf body pre s = (Continue, s1) \<Longrightarrow> body t s1 = (Return, s2) \<Longrightarrow>
   forOf body (pre @ t # post) s = (Return, s2)"
  by (simp add: forOf_append)

lemma moveElement_body_null:
  "frames_get E (world s) (frameId t) = Some fv \<Longrightarrow>
   fst (view_moveElement E fv (domId t) (loc_index location) (world s)) = None \<Longrightarrow>
   moveElement_body E location t s =
     (Return, emit (ConsoleError ''Failed to move element'')
        ((emit (ViewMoveElement fv (domId t) (loc_index location)) s)
           \<lparr>world := snd (view_moveElement E fv (domId t) (loc_index location) (world s))\<rparr>))"
  by (simp add: moveElement_body_def Let_def)

lemma removeElement_body_null:
  "frames_get E (world s) (frameId t) = Some fv \<Longrightarrow>
   fst (view_removeElement E fv location (world s)) = None \<Longrightarrow>
   removeElement_body E location t s =
     (Return, emit (ConsoleError ''Failed to remove element'')
        ((emit (ViewRemoveElement fv location) s)
           \<lparr>world := snd (view_removeElement E fv location (world s))\<rparr>))"
  by (simp add: removeElement_body_def Let_def)

text \<open>
  C8: in \<^verbatim>\<open>moveElement\<close> and in \<^verbatim>\<open>removeElement\<close>, when the loop reaches a target whose
  frame is there and the gateway call for it returns \<^verbatim>\<open>null\<close>, the handler ends at once.
  Its result is the state reached before that target, with the failed call and the logged
  error added to the trace and nothing else: no selection refresh with a snapshot for the
  failed target, and nothing at all for the targets after it, whatever they are.
\<close>

theorem structural_edit_abort:
  "(forOf (moveElement_body E location) pre s = (Continue, s1)
      \<and> frames_get E (world s1) (frameId t) = Some fv
      \<and> fst (view_moveElement E fv (domId t) (loc_index location) (world s1)) = None
    \<longrightarrow> moveElement E (pre @ t # post) location s =
          s1\<lparr>world := snd (view_moveElement E fv (domId t) (loc_index location) (world s1)),
             trace := trace s1 @ [ViewMoveElement fv (domId t) (loc_index location),
                                   ConsoleError ''Failed to move element'']\<rparr>)
   \<and> (forOf (removeElement_body E location) pre s = (Continue, s1)
      \<and> frames_get E (world s1) (frameId t) = Some fv
      \<and> fst (view_removeElement E fv location (world s1)) = None
    \<longrightarrow> removeElement E (pre @ t # post) location s =
          s1\<lparr>world := snd (view_removeElement E fv location (world s1)),
             trace := trace s1 @ [ViewRemoveElement fv location,
                                   ConsoleError ''Failed to remove element'']\<rparr>)"
proof (intro conjI impI)
  assume a: "forOf (moveElement_body E location) pre s = (Continue, s1)
      \<and> frames_get E (world s1) (frameId t) = Some fv
      \<and> fst (view_moveElement E fv (domId t) (loc_index location) (world s1)) = None"
  then have "moveElement_body E location t s1 =
     (Return, emit (ConsoleError ''Failed to move element'')
        ((emit (ViewMoveElement fv (domId t) (loc_index location)) s1)
           \<lparr>world := snd (view_moveElement E fv (domId t) (loc_index location) (world s1))\<rparr>))"
    by (simp add: moveElement_body_null)
  with a show "moveElement E (pre @ t # post) location s =
          s1\<lparr>world := snd (view_moveElement E fv (domId t) (loc_index location) (world s1)),
             trace := trace s1 @ [ViewMoveElement fv (domId t) (loc_index location),
                                   ConsoleError ''Failed to move element'']\<rparr>"
    by (simp add: moveElement_def forOf_stops emit_def)
next
  assume a: "forOf (removeElement_body E location) pre s = (Continue, s1)
      \<and> frames_get E (world s1) (frameId t) = Some fv
      \<and> fst (view_removeElement E fv location (world s1)) = None"
  then have "removeElement_body E location t s1 =
     (Return, emit (ConsoleError ''Failed to remove element'')
        ((emit (ViewRemoveElement fv location) s1)
           \<lparr>world := snd (view_removeElement E fv location (world s1))\<rparr>))"
    by (simp add: removeElement_body_null)
  with a show "removeElement E (pre @ t # post) location s =
          s1\<lparr>world := snd (view_removeElement E fv location (world s1)),
             trace := trace s1 @ [ViewRemoveElement fv location,
                                   ConsoleError ''Failed to remove element'']\<rparr>"
    by (simp add: removeElement_def forOf_stops emit_def)
qed

theorem structural_edit_abort_witness:
  "trace (moveElement ex_engine ex_targets \<lparr>targetDomId = ''parent'', loc_index = 0\<rparr> ex_sys) =
     [ViewMoveElement ''view-1'' ''el-1'' 0, SetEditorModeDesign, ElementsClick [ex_el ''el-1''],
      ViewMoveElement ''view-1'' ''el-gone'' 0, ConsoleError ''Failed to move element'']
   \<and> trace (removeElement ex_engine ex_targets \<lparr>targetDomId = ''el-gone'', loc_index = 0\<rparr> ex_sys) =
     [ViewRemoveElement ''view-1'' \<lparr>targetDomId = ''el-gone'', loc_index = 0\<rparr>,
      ConsoleError ''Failed to remove element'']"
proof -
  let ?loc = "\<lparr>targetDomId = ''parent'', loc_index = 0\<rparr>"
  let ?t1 = "\<lparr>frameId = ''frame-1'', domId = ''el-1'', oid = None\<rparr>"
  let ?t2 = "\<lparr>frameId = ''frame-1'', domId = ''el-gone'', oid = None\<rparr>"
  let ?t3 = "\<lparr>frameId = ''frame-1'', domId = ''el-3'', oid = None\<rparr>"
  let ?s1 = "\<lparr>store = ex_store, world = Suc 0,
              trace = [ViewMoveElement ''view-1'' ''el-1'' 0, SetEditorModeDesign,
                       ElementsClick [ex_el ''el-1'']]\<rparr>"
  have m1: "forOf (moveElement_body ex_engine ?loc) [?t1] ex_sys = (Continue, ?s1)"
    by (simp add: moveElement_body_def ex_engine_def ex_sys_def ex_call_def Let_def emit_def
        refreshAndClickMutatedElement_def)
  have m2: "frames_get ex_engine (world ?s1) (frameId ?t2) = Some ''view-1''"
    by (simp add: ex_engine_def)
  have m3: "fst (view_moveElement ex_engine ''view-1'' (domId ?t2) (loc_index ?loc) (world ?s1)) = None"
    by (simp add: ex_engine_def ex_call_def)
  let ?rloc = "\<lparr>targetDomId = ''el-gone'', loc_index = 0\<rparr>"
  have r1: "forOf (removeElement_body ex_engine ?rloc) [] ex_sys = (Continue, ex_sys)"
    by simp
  have r2: "frames_get ex_engine (world ex_sys) (frameId ?t1) = Some ''view-1''"
    by (simp add: ex_engine_def)
  have r3: "fst (view_removeElement ex_engine ''view-1'' ?rloc (world ex_sys)) = None"
    by (simp add: ex_engine_def ex_call_def)
  from structural_edit_abort [of ex_engine ?loc "[?t1]" ex_sys ?s1 ?t2 "''view-1''" "[?t3]"] m1 m2 m3
  have mv: "trace (moveElement ex_engine ([?t1] @ ?t2 # [?t3]) ?loc ex_sys) =
     [ViewMoveElement ''view-1'' ''el-1'' 0, SetEditorModeDesign, ElementsClick [ex_el ''el-1''],
      ViewMoveElement ''view-1'' ''el-gone'' 0, ConsoleError ''Failed to move element'']"
    by simp
  from structural_edit_abort [of ex_engine ?rloc "[]" ex_sys ex_sys ?t1 "''view-1''" "[?t2, ?t3]"] r1 r2 r3
  have rm: "trace (removeElement ex_engine ([] @ ?t1 # [?t2, ?t3]) ?rloc ex_sys) =
     [ViewRemoveElement ''view-1'' ?rloc, ConsoleError ''Failed to remove element'']"
    by (simp add: ex_sys_def)
  from mv rm show ?thesis by (simp add: ex_targets_def)
qed

subsection \<open>Token resolution\<close>

lemma resolveCustom_idem:
  "fst (resolveCustom th (fst (resolveCustom th v))) = fst (resolveCustom th v)"
  by (simp add: resolveCustom_def split: option.splits)

lemma convertEntry_apply:
  "convertEntry th e (m, ws) =
     (m(snd e := fst (resolveCustom th (m (snd e)))), ws @ snd (resolveCustom th (m (snd e))))"
  by (simp add: convertEntry_def)

lemma fold_convertEntry_store:
  "fst (fold (convertEntry th) es (m, ws)) a =
     (if a \<in> snd ` set es then fst (resolveCustom th (m a)) else m a)"
proof (induction es arbitrary: m ws)
  case Nil
  then show ?case by simp
next
  case (Cons e es)
  show ?case
    by (simp add: convertEntry_apply Cons.IH resolveCustom_idem)
qed

lemma fold_convertEntry_warns_mono:
  "set ws \<subseteq> set (snd (fold (convertEntry th) es (m, ws)))"
proof (induction es arbitrary: m ws)
  case Nil
  then show ?case by simp
next
  case (Cons e es)
  have "set (ws @ snd (resolveCustom th (m (snd e)))) \<subseteq>
        set (snd (fold (convertEntry th) es
               (m(snd e := fst (resolveCustom th (m (snd e)))), ws @ snd (resolveCustom th (m (snd e))))))"
    by (rule Cons.IH)
  then show ?case by (simp add: convertEntry_apply)
qed

lemma fold_convertEntry_warns:
  "a \<in> snd ` set es \<Longrightarrow>
   set (snd (resolveCustom th (m a))) \<subseteq> set (snd (fold (convertEntry th) es (m, ws)))"
proof (induction es arbitrary: m ws)
  case Nil
  then show ?case by simp
next
  case (Cons e es)
  let ?m1 = "m(snd e := fst (resolveCustom th (m (snd e))))"
  let ?ws1 = "ws @ snd (resolveCustom th (m (snd e)))"
  have step: "fold (convertEntry th) (e # es) (m, ws) = fold (convertEntry th) es (?m1, ?ws1)"
    by (simp add: convertEntry_apply)
  show ?case
  proof (cases "snd e = a")
    case True
    have "set ?ws1 \<subseteq> set (snd (fold (convertEntry th) es (?m1, ?ws1)))"
      by (rule fold_convertEntry_warns_mono)
    then have "set (snd (resolveCustom th (m a))) \<subseteq> set (snd (fold (convertEntry th) es (?m1, ?ws1)))"
      using True by simp
    then show ?thesis unfolding step .
  next
    case False
    then have mem: "a \<in> snd ` set es" using Cons.prems by auto
    have same: "?m1 a = m a" using False by simp
    have "set (snd (resolveCustom th (?m1 a))) \<subseteq> set (snd (fold (convertEntry th) es (?m1, ?ws1)))"
      using mem by (rule Cons.IH)
    then show ?thesis unfolding step same .
  qed
qed

lemma convertedChange_store:
  "fst (convertedChange th es m) a =
     (if a \<in> snd ` set es then fst (resolveCustom th (m a)) else m a)"
  by (simp add: convertedChange_def fold_convertEntry_store)

lemma convertedChange_updated:
  "map (\<lambda>(k, a). (k, fst (convertedChange th es m) a)) es =
   map (\<lambda>(k, a). (k, fst (resolveCustom th (m a)))) es"
proof (rule map_cong [OF refl])
  fix x assume "x \<in> set es"
  then have "snd x \<in> snd ` set es" by (rule imageI)
  then show "(case x of (k, a) \<Rightarrow> (k, fst (convertedChange th es m) a)) =
             (case x of (k, a) \<Rightarrow> (k, fst (resolveCustom th (m a))))"
    by (cases x) (simp add: convertedChange_store)
qed

lemma convertedChange_warns:
  "(k, a) \<in> set es \<Longrightarrow>
   set (snd (resolveCustom th (m a))) \<subseteq> set (snd (convertedChange th es m))"
proof -
  assume "(k, a) \<in> set es"
  then have "snd (k, a) \<in> snd ` set es" by (rule imageI)
  then have "a \<in> snd ` set es" by simp
  then show ?thesis unfolding convertedChange_def by (rule fold_convertEntry_warns)
qed

text \<open>
  One run of the loop body on a target whose frame is there: the loop goes on, the gateway is
  called once, and the \<open>updated\<close> half it receives holds, entry by entry, what the callback
  leaves in the entry's \<open>StyleChange\<close>.
\<close>

lemma updateStyle_body_custom_entry:
  "frames_get E (world s) (frameId target) = Some fv \<Longrightarrow>
   (key, a) \<in> set (updated (change target)) \<Longrightarrow>
   sc_type (store s a) = Custom \<Longrightarrow>
   \<exists>domEls' s' warns chg rest.
     updateStyle_body E target (domEls, s) = (Continue, (domEls', s'))
     \<and> trace s' = trace s @ map ConsoleWarn warns @ ViewUpdateStyle fv (domId target) chg # rest
     \<and> updated chg =
         map (\<lambda>(k, b). (k, fst (resolveCustom (theme_getColorByName E) (store s b))))
           (updated (change target))
     \<and> (\<forall>r. theme_getColorByName E (sc_value (store s a)) = Some r \<and> r \<noteq> [] \<longrightarrow>
           fst (resolveCustom (theme_getColorByName E) (store s a)) =
             \<lparr>sc_value = r, sc_type = Value\<rparr>)
     \<and> ((theme_getColorByName E (sc_value (store s a)) = None
           \<or> theme_getColorByName E (sc_value (store s a)) = Some [])
          \<and> literal_color_test (sc_value (store s a)) \<longrightarrow>
           fst (resolveCustom (theme_getColorByName E) (store s a)) =
             \<lparr>sc_value = sc_value (store s a), sc_type = Value\<rparr>)
     \<and> ((theme_getColorByName E (sc_value (store s a)) = None
           \<or> theme_getColorByName E (sc_value (store s a)) = Some [])
          \<and> \<not> literal_color_test (sc_value (store s a)) \<longrightarrow>
           fst (resolveCustom (theme_getColorByName E) (store s a)) = store s a
           \<and> ''Unknown design token: '' @ sc_value (store s a) \<in> set warns)"
proof -
  assume fr: "frames_get E (world s) (frameId target) = Some fv"
    and mem: "(key, a) \<in> set (updated (change target))"
    and cu: "sc_type (store s a) = Custom"
  let ?th = "theme_getColorByName E"
  let ?conv = "convertedChange ?th (updated (change target)) (store s)"
  let ?chg = "cloneDeep (fst ?conv) \<lparr>original = original (change target), updated = updated (change target)\<rparr>"
  let ?res = "view_updateStyle E fv (domId target) ?chg (world s)"
  let ?v = "store s a"
  obtain domEls' s' rest where body:
    "updateStyle_body E target (domEls, s) = (Continue, (domEls', s'))"
    "trace s' = trace s @ map ConsoleWarn (snd ?conv) @ ViewUpdateStyle fv (domId target) ?chg # rest"
    using fr by (cases "fst ?res") (simp_all add: updateStyle_body_def Let_def emit_def)
  have upd: "updated ?chg = map (\<lambda>(k, b). (k, fst (resolveCustom ?th (store s b)))) (updated (change target))"
    by (simp add: cloneDeep_def convertedChange_updated)
  have c1: "\<forall>r. ?th (sc_value ?v) = Some r \<and> r \<noteq> [] \<longrightarrow>
              fst (resolveCustom ?th ?v) = \<lparr>sc_value = r, sc_type = Value\<rparr>"
    using cu by (simp add: resolveCustom_def)
  have c2: "(?th (sc_value ?v) = None \<or> ?th (sc_value ?v) = Some []) \<and> literal_color_test (sc_value ?v) \<longrightarrow>
              fst (resolveCustom ?th ?v) = \<lparr>sc_value = sc_value ?v, sc_type = Value\<rparr>"
    using cu by (auto simp: resolveCustom_def)
  have w: "set (snd (resolveCustom ?th ?v)) \<subseteq> set (snd ?conv)"
    using mem by (rule convertedChange_warns)
  have c3: "(?th (sc_value ?v) = None \<or> ?th (sc_value ?v) = Some []) \<and> \<not> literal_color_test (sc_value ?v) \<longrightarrow>
              fst (resolveCustom ?th ?v) = ?v
              \<and> ''Unknown design token: '' @ sc_value ?v \<in> set (snd ?conv)"
    using cu w by (auto simp: resolveCustom_def)
  show ?thesis
    using body upd c1 c2 c3 by blast
qed


lemma updateStyle_body_trace:
  "\<exists>evs. trace (snd (snd (updateStyle_body E t (d, s)))) = trace s @ evs"
  by (simp add: updateStyle_body_def Let_def emit_def split: option.splits)

lemma forOf_updateStyle_trace:
  "\<exists>evs. trace (snd (snd (forOf (updateStyle_body E) ts (d, s)))) = trace s @ evs"
proof (induction ts arbitrary: d s)
  case Nil
  then show ?case by simp
next
  case (Cons t ts)
  obtain fl d1 s1 where b: "updateStyle_body E t (d, s) = (fl, (d1, s1))"
    by (metis prod.exhaust)
  obtain evs1 where e1: "trace s1 = trace s @ evs1"
    using updateStyle_body_trace [of E t d s] b by auto
  show ?case
  proof (cases fl)
    case Continue
    obtain evs2 where "trace (snd (snd (forOf (updateStyle_body E) ts (d1, s1)))) = trace s1 @ evs2"
      using Cons.IH [of d1 s1] by blast
    then show ?thesis using b Continue e1 by simp
  next
    case Return
    then show ?thesis using b e1 by simp
  qed
qed

lemma updateStyle_trace_after:
  "forOf (updateStyle_body E) pre ([], s) = (Continue, (d1, s1)) \<Longrightarrow>
   \<exists>evs. trace (updateStyle E (pre @ post) s) = trace s1 @ evs"
proof -
  assume r: "forOf (updateStyle_body E) pre ([], s) = (Continue, (d1, s1))"
  obtain fl d2 s2 where p: "forOf (updateStyle_body E) post (d1, s1) = (fl, (d2, s2))"
    by (metis prod.exhaust)
  obtain evs where e: "trace s2 = trace s1 @ evs"
    using forOf_updateStyle_trace [of E post d1 s1] p by auto
  have "forOf (updateStyle_body E) (pre @ post) ([], s) = (fl, (d2, s2))"
    using r p by (simp add: forOf_append)
  then show ?thesis
    using e by (cases fl) (simp_all add: updateStyle_def emit_def)
qed

text \<open>
  C7, as the code has it: when the loop of \<^verbatim>\<open>updateStyle\<close> reaches a target (no earlier
  target of the action has made the handler return) and the frame of that target is there,
  the loop goes on after it and the gateway is called for it, and the \<open>updated\<close> half that
  the gateway receives has, entry by entry, the key of the action's entry and the content
  that the callback leaves in the entry's \<open>StyleChange\<close>. For an entry of type \<open>Custom\<close>
  that is: if the token resolver returns a non-empty string, that string with type
  \<open>Value\<close>; otherwise, if the raw string starts with \<^verbatim>\<open>#\<close>, \<^verbatim>\<open>rgb\<close> or \<^verbatim>\<open>hsl\<close> (in any
  case of letters), the raw string with type \<open>Value\<close>; otherwise the entry as it was, of
  type \<open>Custom\<close>, with the warning \<^verbatim>\<open>Unknown design token\<close> logged before the gateway
  call.
\<close>

theorem updateStyle_custom_entry:
  "forOf (updateStyle_body E) pre ([], s) = (Continue, (domEls, s1)) \<Longrightarrow>
   frames_get E (world s1) (frameId target) = Some fv \<Longrightarrow>
   (key, a) \<in> set (updated (change target)) \<Longrightarrow>
   sc_type (store s1 a) = Custom \<Longrightarrow>
   \<exists>warns chg rest.
     fst (forOf (updateStyle_body E) (pre @ [target]) ([], s)) = Continue
     \<and> trace (updateStyle E (pre @ target # post) s) =
         trace s1 @ map ConsoleWarn warns @ ViewUpdateStyle fv (domId target) chg # rest
     \<and> updated chg =
         map (\<lambda>(k, b). (k, fst (resolveCustom (theme_getColorByName E) (store s1 b))))
           (updated (change target))
     \<and> (\<forall>r. theme_getColorByName E (sc_value (store s1 a)) = Some r \<and> r \<noteq> [] \<longrightarrow>
           fst (resolveCustom (theme_getColorByName E) (store s1 a)) =
             \<lparr>sc_value = r, sc_type = Value\<rparr>)
     \<and> ((theme_getColorByName E (sc_value (store s1 a)) = None
           \<or> theme_getColorByName E (sc_value (store s1 a)) = Some [])
          \<and> literal_color_test (sc_value (store s1 a)) \<longrightarrow>
           fst (resolveCustom (theme_getColorByName E) (store s1 a)) =
             \<lparr>sc_value = sc_value (store s1 a), sc_type = Value\<rparr>)
     \<and> ((theme_getColorByName E (sc_value (store s1 a)) = None
           \<or> theme_getColorByName E (sc_value (store s1 a)) = Some [])
          \<and> \<not> literal_color_test (sc_value (store s1 a)) \<longrightarrow>
           fst (resolveCustom (theme_getColorByName E) (store s1 a)) = store s1 a
           \<and> ''Unknown design token: '' @ sc_value (store s1 a) \<in> set warns)"
proof -
  assume reach: "forOf (updateStyle_body E) pre ([], s) = (Continue, (domEls, s1))"
    and fr: "frames_get E (world s1) (frameId target) = Some fv"
    and mem: "(key, a) \<in> set (updated (change target))"
    and cu: "sc_type (store s1 a) = Custom"
  let ?th = "theme_getColorByName E"
  from updateStyle_body_custom_entry [OF fr mem cu, of domEls]
  obtain domEls' s' warns chg rest0 where
    body: "updateStyle_body E target (domEls, s1) = (Continue, (domEls', s'))" and
    tr: "trace s' = trace s1 @ map ConsoleWarn warns @ ViewUpdateStyle fv (domId target) chg # rest0" and
    upd: "updated chg =
            map (\<lambda>(k, b). (k, fst (resolveCustom ?th (store s1 b)))) (updated (change target))" and
    c1: "\<forall>r. ?th (sc_value (store s1 a)) = Some r \<and> r \<noteq> [] \<longrightarrow>
           fst (resolveCustom ?th (store s1 a)) = \<lparr>sc_value = r, sc_type = Value\<rparr>" and
    c2: "(?th (sc_value (store s1 a)) = None \<or> ?th (sc_value (store s1 a)) = Some [])
          \<and> literal_color_test (sc_value (store s1 a)) \<longrightarrow>
           fst (resolveCustom ?th (store s1 a)) =
             \<lparr>sc_value = sc_value (store s1 a), sc_type = Value\<rparr>" and
    c3: "(?th (sc_value (store s1 a)) = None \<or> ?th (sc_value (store s1 a)) = Some [])
          \<and> \<not> literal_color_test (sc_value (store s1 a)) \<longrightarrow>
           fst (resolveCustom ?th (store s1 a)) = store s1 a
           \<and> ''Unknown design token: '' @ sc_value (store s1 a) \<in> set warns"
    by blast
  have step: "forOf (updateStyle_body E) (pre @ [target]) ([], s) = (Continue, (domEls', s'))"
    using reach body by (simp add: forOf_append)
  then obtain evs where "trace (updateStyle E ((pre @ [target]) @ post) s) = trace s' @ evs"
    using updateStyle_trace_after by blast
  then have full: "trace (updateStyle E (pre @ target # post) s) =
      trace s1 @ map ConsoleWarn warns @ ViewUpdateStyle fv (domId target) chg # (rest0 @ evs)"
    using tr by simp
  have cont: "fst (forOf (updateStyle_body E) (pre @ [target]) ([], s)) = Continue"
    using step by simp
  show ?thesis
    using cont full upd c1 c2 c3 by blast
qed


text \<open>The definitions that an evaluation of \<^verbatim>\<open>updateStyle\<close> at the concrete engine unfolds.\<close>

lemmas ex_eval =
  updateStyle_def updateStyle_body_def convertedChange_def convertEntry_def resolveCustom_def
  cloneDeep_def emit_def Let_def literal_color_test_def
  ex_engine_def ex_sys_def ex_store_def ex_style_target_def ex_call_def

theorem literal_length_counterexample:
  "spec_literal_syntax ''16px''
   \<and> trace (updateStyle ex_engine
              [ex_style_target ''frame-1'' ''el-1'' [(''width'', 2)] [(''width'', 3)]] ex_sys) =
     [ConsoleWarn ''Unknown design token: 16px'',
      ViewUpdateStyle ''view-1'' ''el-1''
        \<lparr>original = [(''width'', \<lparr>sc_value = ''auto'', sc_type = Value\<rparr>)],
         updated = [(''width'', \<lparr>sc_value = ''16px'', sc_type = Custom\<rparr>)]\<rparr>,
      RefreshDomElement [ex_el ''el-1'']]"
  by (simp add: ex_eval spec_literal_syntax_def spec_literal_length_def css_units_def is_digit_def)

theorem updateStyle_custom_entry_witness:
  "\<exists>warns chg rest.
     trace (updateStyle ex_engine
              [ex_style_target ''frame-1'' ''el-0'' [(''width'', 0)] [(''width'', 2)],
               ex_style_target ''frame-1'' ''el-1''
                 [(''color'', 0), (''width'', 2), (''backgroundColor'', 0)]
                 [(''color'', 1), (''width'', 3), (''backgroundColor'', 4)]]
              ex_sys) =
       [ViewUpdateStyle ''view-1'' ''el-0''
          \<lparr>original = [(''width'', \<lparr>sc_value = ''rgb(0, 0, 0)'', sc_type = Value\<rparr>)],
           updated = [(''width'', \<lparr>sc_value = ''auto'', sc_type = Value\<rparr>)]\<rparr>]
       @ map ConsoleWarn warns @ ViewUpdateStyle ''view-1'' ''el-1'' chg # rest
     \<and> updated chg =
         [(''color'', \<lparr>sc_value = ''#112233'', sc_type = Value\<rparr>),
          (''width'', \<lparr>sc_value = ''16px'', sc_type = Custom\<rparr>),
          (''backgroundColor'', \<lparr>sc_value = ''#fff'', sc_type = Value\<rparr>)]"
proof -
  let ?pre = "ex_style_target ''frame-1'' ''el-0'' [(''width'', 0)] [(''width'', 2)]"
  let ?tgt = "ex_style_target ''frame-1'' ''el-1''
          [(''color'', 0), (''width'', 2), (''backgroundColor'', 0)]
          [(''color'', 1), (''width'', 3), (''backgroundColor'', 4)]"
  let ?X = "forOf (updateStyle_body ex_engine) [?pre] ([], ex_sys)"
  let ?s1 = "snd (snd ?X)"
  have fl: "fst ?X = Continue"
    by (simp add: ex_eval)
  have reach: "?X = (Continue, (fst (snd ?X), ?s1))"
    by (metis fl prod.collapse)
  have tr1: "trace ?s1 =
       [ViewUpdateStyle ''view-1'' ''el-0''
          \<lparr>original = [(''width'', \<lparr>sc_value = ''rgb(0, 0, 0)'', sc_type = Value\<rparr>)],
           updated = [(''width'', \<lparr>sc_value = ''auto'', sc_type = Value\<rparr>)]\<rparr>]"
    by (simp add: ex_eval)
  have st1: "store ?s1 1 = \<lparr>sc_value = ''primary'', sc_type = Custom\<rparr>"
            "store ?s1 3 = \<lparr>sc_value = ''16px'', sc_type = Custom\<rparr>"
            "store ?s1 4 = \<lparr>sc_value = ''#fff'', sc_type = Custom\<rparr>"
    by (simp_all add: ex_eval)
  have a: "frames_get ex_engine (world ?s1) (frameId ?tgt) = Some ''view-1''"
    by (simp add: ex_engine_def ex_style_target_def)
  have b: "(''color'', 1) \<in> set (updated (change ?tgt))"
    by (simp add: ex_style_target_def)
  have c: "sc_type (store ?s1 1) = Custom"
    using st1(1) by simp
  from updateStyle_custom_entry [OF reach a b c, where post = "[]"]
  obtain warns chg rest where
    tr: "trace (updateStyle ex_engine ([?pre] @ ?tgt # []) ex_sys) =
           trace ?s1 @ map ConsoleWarn warns @ ViewUpdateStyle ''view-1'' (domId ?tgt) chg # rest" and
    upd: "updated chg =
       map (\<lambda>(k, b). (k, fst (resolveCustom (theme_getColorByName ex_engine) (store ?s1 b))))
         (updated (change ?tgt))"
    by blast
  have tr': "trace (updateStyle ex_engine [?pre, ?tgt] ex_sys) =
       [ViewUpdateStyle ''view-1'' ''el-0''
          \<lparr>original = [(''width'', \<lparr>sc_value = ''rgb(0, 0, 0)'', sc_type = Value\<rparr>)],
           updated = [(''width'', \<lparr>sc_value = ''auto'', sc_type = Value\<rparr>)]\<rparr>]
       @ map ConsoleWarn warns @ ViewUpdateStyle ''view-1'' ''el-1'' chg # rest"
    using tr tr1 by (simp add: ex_style_target_def)
  have upd': "updated chg =
         [(''color'', \<lparr>sc_value = ''#112233'', sc_type = Value\<rparr>),
          (''width'', \<lparr>sc_value = ''16px'', sc_type = Custom\<rparr>),
          (''backgroundColor'', \<lparr>sc_value = ''#fff'', sc_type = Value\<rparr>)]"
    using upd st1
    by (simp add: ex_engine_def ex_style_target_def resolveCustom_def literal_color_test_def)
  from tr' upd' show ?thesis by blast
qed

subsection \<open>A target whose frame is gone\<close>

text \<open>
  C1, evaluated where it fails: an \<^verbatim>\<open>UpdateStyle\<close> action with two targets, one in a frame
  that is gone (\<^verbatim>\<open>frame-0\<close>) and one in a frame that is there. With the missing frame
  first, \<^verbatim>\<open>updateStyle\<close> logs the error and returns: the gateway is never called for the
  second target and no snapshot is reported. With the missing frame second, the style has
  been applied to the first target, and the \<^verbatim>\<open>return\<close> leaves out the call of
  \<^verbatim>\<open>refreshDomElement\<close> with the snapshot already collected.
\<close>

theorem updateStyle_missing_frame:
  "trace (updateStyle ex_engine
            [ex_style_target ''frame-0'' ''el-0'' [(''color'', 0)] [(''color'', 1)],
             ex_style_target ''frame-1'' ''el-1'' [(''width'', 2)] [(''width'', 3)]] ex_sys) =
     [ConsoleError ''Failed to get frameView'']
   \<and> trace (updateStyle ex_engine
            [ex_style_target ''frame-1'' ''el-1'' [(''width'', 2)] [(''width'', 3)],
             ex_style_target ''frame-0'' ''el-0'' [(''color'', 0)] [(''color'', 1)]] ex_sys) =
     [ConsoleWarn ''Unknown design token: 16px'',
      ViewUpdateStyle ''view-1'' ''el-1''
        \<lparr>original = [(''width'', \<lparr>sc_value = ''auto'', sc_type = Value\<rparr>)],
         updated = [(''width'', \<lparr>sc_value = ''16px'', sc_type = Custom\<rparr>)]\<rparr>,
      ConsoleError ''Failed to get frameView'']"
  by (simp add: ex_eval)

subsection \<open>The stored action and the dispatcher\<close>




end
